theory Spec2Isabelle
  imports Main "HOL-Library.Word"
begin

unbundle bit_operations_syntax

section \<open>Shared memory manager (shmmgr.c)\<close>

subsection \<open>Machine types, layout and failures\<close>

text \<open>
  Addresses (\<open>void *\<close>, \<open>unsigned long\<close>), \<open>size_t\<close> and \<open>offset_t\<close> are 64-bit
  unsigned values; the local \<open>int mclass\<close> is an \<open>int\<close> whose range the code keeps
  within a byte; \<open>1 << mclass\<close> is a 32-bit \<open>int\<close> that is converted (with sign
  extension) when it meets an \<open>offset_t\<close>.
\<close>

type_synonym addr = "64 word"
type_synonym offset_t = "64 word"

text \<open>
  The header \<open>pg_boost.h\<close> (the declarations of \<open>offset_t\<close>, \<open>shmlist_t\<close>,
  \<open>offset_of\<close> and \<open>container_of\<close>) is not part of the sources at hand, so the
  constants of the memory layout are parameters of the model:
  \<open>hdr_off\<close> is \<open>offset_of(shmchunk_t, list)\<close>, \<open>head_size\<close> is \<open>sizeof(shmhead_t)\<close>,
  \<open>fl_off\<close> is the offset of \<open>free_list[0]\<close> in \<open>shmhead_t\<close> and \<open>node_size\<close> is
  \<open>sizeof(shmlist_t)\<close>.
\<close>

record layout =
  hdr_off :: "64 word"
  head_size :: "64 word"
  fl_off :: "64 word"
  node_size :: "64 word"

text \<open>The layout of an LP64 build with \<open>offset_t = uint64_t\<close> and a 40-byte mutex.\<close>

definition lp64 :: layout where
  "lp64 = \<lparr> hdr_off = 8, head_size = 824, fl_off = 16, node_size = 16 \<rparr>"

text \<open>
  What stops a call instead of returning: a failed \<open>assert\<close>, a load or store through
  the null pointer, an array index outside \<open>0..SHMCLASS_MAX_BITS\<close>, and a shift of an
  \<open>int\<close> by a count outside \<open>0..31\<close>.
\<close>

datatype error = AssertFail | NullDeref | OutOfBounds | UndefShift

definition rbind :: "error + 'a \<Rightarrow> ('a \<Rightarrow> error + 'b) \<Rightarrow> error + 'b" where
  "rbind m f = (case m of Inl e \<Rightarrow> Inl e | Inr x \<Rightarrow> f x)"

definition SHMCLASS_MIN_BITS :: int where "SHMCLASS_MIN_BITS = 6"
definition SHMCLASS_MAX_BITS :: int where "SHMCLASS_MAX_BITS = 31"

text \<open>
  \<open>1 << n\<close> on \<open>int\<close>: the bit pattern of the 32-bit shift (so \<open>1 << 31\<close> is
  \<open>INT_MIN\<close>, as the compilers the code is built with define it).
\<close>

definition shl1 :: "int \<Rightarrow> error + 32 word" where
  "shl1 n = (if 0 \<le> n \<and> n < 32 then Inr (push_bit (nat n) 1) else Inl UndefShift)"

text \<open>The conversion of an \<open>int\<close> to \<open>offset_t\<close>: sign extension.\<close>

definition int_to_off :: "32 word \<Rightarrow> offset_t" where
  "int_to_off w = scast w"

definition SHMCLASS_MIN_SIZE :: "32 word" where
  "SHMCLASS_MIN_SIZE = push_bit 6 1"

definition SHMCLASS_MAX_SIZE :: "32 word" where
  "SHMCLASS_MAX_SIZE = push_bit 31 1"

subsection \<open>Bit scans\<close>

text \<open>
  Both scans run six tests on the pair of the locals \<open>(value, ret)\<close>. One test of
  \<open>ffs64\<close> is \<open>if (!(value & M)) { value >>= k; ret += k; }\<close>, one test of
  \<open>fls64\<close> is \<open>if (value & M) { value >>= k; ret += k; }\<close>.
\<close>

definition ffs_step :: "64 word \<Rightarrow> nat \<Rightarrow> 64 word \<times> int \<Rightarrow> 64 word \<times> int" where
  "ffs_step M k p = (if fst p AND M = 0 then (drop_bit k (fst p), snd p + int k) else p)"

definition fls_step :: "64 word \<Rightarrow> nat \<Rightarrow> 64 word \<times> int \<Rightarrow> 64 word \<times> int" where
  "fls_step M k p = (if fst p AND M \<noteq> 0 then (drop_bit k (fst p), snd p + int k) else p)"

definition ffs64 :: "64 word \<Rightarrow> int" where
  "ffs64 value0 =
     (if value0 = 0 then 0
      else
        let p = (value0, 1);
            p = ffs_step 0xffffffff 32 p;
            p = ffs_step 0x0000ffff 16 p;
            p = ffs_step 0x000000ff 8 p;
            p = ffs_step 0x0000000f 4 p;
            p = ffs_step 0x00000003 2 p;
            p = ffs_step 0x00000001 1 p
        in snd p)"

definition fls64 :: "64 word \<Rightarrow> int" where
  "fls64 value0 =
     (if value0 = 0 then 0
      else
        let p = (value0, 1);
            p = fls_step 0xffffffff00000000 32 p;
            p = fls_step 0xffff0000 16 p;
            p = fls_step 0xff00 8 p;
            p = fls_step 0xf0 4 p;
            p = fls_step 0xc 2 p;
            p = fls_step 0x2 1 p
        in snd p)"

subsection \<open>Offset arithmetic\<close>

text \<open>
  \<open>shmhead\<close> is the process-local segment base; both translations assert that it is
  set. Offset 0 and the null address stand for each other.
\<close>

definition addr_to_offset :: "addr \<Rightarrow> addr \<Rightarrow> error + offset_t" where
  "addr_to_offset shmhead a =
     (if shmhead = 0 then Inl AssertFail
      else if a = 0 then Inr 0
      else Inr (a - shmhead))"

definition offset_to_addr :: "addr \<Rightarrow> offset_t \<Rightarrow> error + addr" where
  "offset_to_addr shmhead off =
     (if shmhead = 0 then Inl AssertFail
      else if off = 0 then Inr 0
      else Inr (shmhead + off))"

subsection \<open>The shared segment as a store\<close>

text \<open>
  The memory the allocator touches, field by field and keyed by absolute address:
  the two offsets of every \<open>shmlist_t\<close> (under the address of the node), the
  \<open>mclass\<close> and \<open>active\<close> fields of every \<open>shmchunk_t\<close> (under the address of the
  chunk), the counters and the segment size of \<open>shmhead_t\<close>, the process-local
  pointer \<open>shmhead\<close>, and whether the segment mutex is held. Distinct fields do not
  alias in this store.
\<close>

record shm =
  shmhead :: addr
  shmid :: int
  segment_size :: offset_t
  l_next :: "addr \<Rightarrow> offset_t"
  l_prev :: "addr \<Rightarrow> offset_t"
  c_mclass :: "addr \<Rightarrow> 8 word"
  c_active :: "addr \<Rightarrow> bool"
  num_active :: "int \<Rightarrow> 32 word"
  num_free :: "int \<Rightarrow> 32 word"
  lock_held :: bool

text \<open>Loads and stores through a pointer; the null pointer cannot be dereferenced.\<close>

definition ld_next :: "shm \<Rightarrow> addr \<Rightarrow> error + offset_t" where
  "ld_next s a = (if a = 0 then Inl NullDeref else Inr (l_next s a))"

definition ld_prev :: "shm \<Rightarrow> addr \<Rightarrow> error + offset_t" where
  "ld_prev s a = (if a = 0 then Inl NullDeref else Inr (l_prev s a))"

definition st_next :: "shm \<Rightarrow> addr \<Rightarrow> offset_t \<Rightarrow> error + shm" where
  "st_next s a v = (if a = 0 then Inl NullDeref else Inr (s\<lparr>l_next := (l_next s)(a := v)\<rparr>))"

definition st_prev :: "shm \<Rightarrow> addr \<Rightarrow> offset_t \<Rightarrow> error + shm" where
  "st_prev s a v = (if a = 0 then Inl NullDeref else Inr (s\<lparr>l_prev := (l_prev s)(a := v)\<rparr>))"

definition ld_mclass :: "shm \<Rightarrow> addr \<Rightarrow> error + int" where
  "ld_mclass s c = (if c = 0 then Inl NullDeref else Inr (uint (c_mclass s c)))"

definition ld_active :: "shm \<Rightarrow> addr \<Rightarrow> error + bool" where
  "ld_active s c = (if c = 0 then Inl NullDeref else Inr (c_active s c))"

definition st_mclass :: "shm \<Rightarrow> addr \<Rightarrow> int \<Rightarrow> error + shm" where
  "st_mclass s c m =
     (if c = 0 then Inl NullDeref else Inr (s\<lparr>c_mclass := (c_mclass s)(c := word_of_int m)\<rparr>))"

definition st_active :: "shm \<Rightarrow> addr \<Rightarrow> bool \<Rightarrow> error + shm" where
  "st_active s c b =
     (if c = 0 then Inl NullDeref else Inr (s\<lparr>c_active := (c_active s)(c := b)\<rparr>))"

text \<open>\<open>&shmhead->free_list[m]\<close>, and the counters indexed by \<open>m\<close>.\<close>

definition free_list :: "layout \<Rightarrow> shm \<Rightarrow> int \<Rightarrow> error + addr" where
  "free_list L s m =
     (if 0 \<le> m \<and> m \<le> SHMCLASS_MAX_BITS
      then Inr (shmhead s + fl_off L + node_size L * word_of_int m)
      else Inl OutOfBounds)"

definition add_num_free :: "shm \<Rightarrow> int \<Rightarrow> 32 word \<Rightarrow> error + shm" where
  "add_num_free s m d =
     (if 0 \<le> m \<and> m \<le> SHMCLASS_MAX_BITS
      then Inr (s\<lparr>num_free := (num_free s)(m := num_free s m + d)\<rparr>)
      else Inl OutOfBounds)"

definition add_num_active :: "shm \<Rightarrow> int \<Rightarrow> 32 word \<Rightarrow> error + shm" where
  "add_num_active s m d =
     (if 0 \<le> m \<and> m \<le> SHMCLASS_MAX_BITS
      then Inr (s\<lparr>num_active := (num_active s)(m := num_active s m + d)\<rparr>)
      else Inl OutOfBounds)"

text \<open>\<open>container_of(list, shmchunk_t, list)\<close> and \<open>&chunk->list\<close>.\<close>

definition container_of :: "layout \<Rightarrow> addr \<Rightarrow> addr" where
  "container_of L list = list - hdr_off L"

definition list_of :: "layout \<Rightarrow> addr \<Rightarrow> addr" where
  "list_of L chunk = chunk + hdr_off L"

subsection \<open>Intrusive offset lists\<close>

definition shmlist_empty :: "shm \<Rightarrow> addr \<Rightarrow> error + bool" where
  "shmlist_empty s list =
     rbind (ld_next s list) (\<lambda>n.
     rbind (offset_to_addr (shmhead s) n) (\<lambda>a.
     Inr (a = list)))"

definition shmlist_init :: "shm \<Rightarrow> addr \<Rightarrow> error + shm" where
  "shmlist_init s list =
     rbind (addr_to_offset (shmhead s) list) (\<lambda>off.
     rbind (st_prev s list off) (\<lambda>s.
     st_next s list off))"

definition shmlist_add :: "shm \<Rightarrow> addr \<Rightarrow> addr \<Rightarrow> error + shm" where
  "shmlist_add s base list =
     rbind (ld_next s base) (\<lambda>n.
     rbind (offset_to_addr (shmhead s) n) (\<lambda>nlist.
     rbind (addr_to_offset (shmhead s) list) (\<lambda>off.
     rbind (st_next s base off) (\<lambda>s.
     rbind (addr_to_offset (shmhead s) base) (\<lambda>off.
     rbind (st_prev s list off) (\<lambda>s.
     rbind (addr_to_offset (shmhead s) nlist) (\<lambda>off.
     rbind (st_next s list off) (\<lambda>s.
     rbind (addr_to_offset (shmhead s) list) (\<lambda>off.
     st_prev s nlist off)))))))))"

definition shmlist_del :: "shm \<Rightarrow> addr \<Rightarrow> error + shm" where
  "shmlist_del s list =
     rbind (ld_prev s list) (\<lambda>p.
     rbind (offset_to_addr (shmhead s) p) (\<lambda>plist.
     rbind (ld_next s list) (\<lambda>n.
     rbind (offset_to_addr (shmhead s) n) (\<lambda>nlist.
     rbind (addr_to_offset (shmhead s) nlist) (\<lambda>off.
     rbind (st_next s plist off) (\<lambda>s.
     rbind (addr_to_offset (shmhead s) plist) (\<lambda>off.
     rbind (st_prev s nlist off) (\<lambda>s.
     shmlist_init s list))))))))"

subsection \<open>The buddy chunk store\<close>

lemma rbind_cong [fundef_cong]:
  "m = m' \<Longrightarrow> (\<And>x. m' = Inr x \<Longrightarrow> f x = f' x) \<Longrightarrow> rbind m f = rbind m' f'"
  by (cases m') (simp_all add: rbind_def)

definition assert :: "bool \<Rightarrow> error + unit" where
  "assert b = (if b then Inr () else Inl AssertFail)"

text \<open>
  The second part of \<open>shmmgr_split_chunk\<close>, from the load of the head of
  \<open>free_list[mclass]\<close> on: the head chunk is taken off, halved, and both halves are
  put on \<open>free_list[mclass - 1]\<close>.
\<close>

definition split_head :: "layout \<Rightarrow> shm \<Rightarrow> int \<Rightarrow> error + shm" where
  "split_head L s mclass =
     rbind (free_list L s mclass) (\<lambda>fl.
     rbind (ld_next s fl) (\<lambda>n.
     rbind (offset_to_addr (shmhead s) n) (\<lambda>list.
     let chunk1 = container_of L list in
     rbind (ld_mclass s chunk1) (\<lambda>m1.
     rbind (assert (m1 = mclass)) (\<lambda>_.
     rbind (shmlist_del s (list_of L chunk1)) (\<lambda>s.
     rbind (add_num_free s mclass (- 1)) (\<lambda>s.
     rbind (addr_to_offset (shmhead s) chunk1) (\<lambda>offset.
     let mclass = mclass - 1 in
     rbind (shl1 mclass) (\<lambda>sz.
     rbind (offset_to_addr (shmhead s) (offset + int_to_off sz)) (\<lambda>chunk2.
     rbind (st_mclass s chunk2 mclass) (\<lambda>s.
     rbind (ld_mclass s chunk2) (\<lambda>m2.
     rbind (st_mclass s chunk1 m2) (\<lambda>s.
     rbind (st_active s chunk2 False) (\<lambda>s.
     rbind (ld_active s chunk2) (\<lambda>a2.
     rbind (st_active s chunk1 a2) (\<lambda>s.
     rbind (free_list L s mclass) (\<lambda>fl.
     rbind (shmlist_add s fl (list_of L chunk1)) (\<lambda>s.
     rbind (shmlist_add s fl (list_of L chunk2)) (\<lambda>s.
     add_num_free s mclass 2)))))))))))))))))))"

function shmmgr_split_chunk :: "layout \<Rightarrow> shm \<Rightarrow> int \<Rightarrow> error + bool \<times> shm" where
  "shmmgr_split_chunk L s mclass =
     rbind (assert (mclass > SHMCLASS_MIN_BITS \<and> mclass \<le> SHMCLASS_MAX_BITS)) (\<lambda>_.
     rbind (free_list L s mclass) (\<lambda>fl.
     rbind (shmlist_empty s fl) (\<lambda>e.
     rbind (if e then
              (if mclass = SHMCLASS_MAX_BITS then Inr (False, s)
               else shmmgr_split_chunk L s (mclass + 1))
            else Inr (True, s)) (\<lambda>(ok, s).
     if \<not> ok then Inr (False, s)
     else rbind (split_head L s mclass) (\<lambda>s. Inr (True, s))))))"
  by pat_completeness auto
termination
  by (relation "measure (\<lambda>(L, s, mclass). nat (SHMCLASS_MAX_BITS - mclass))")
    (auto simp: assert_def SHMCLASS_MAX_BITS_def split: if_splits)

declare shmmgr_split_chunk.simps [simp del]

text \<open>The segment mutex, as seen by the one process that runs a call.\<close>

definition mutex_lock :: "shm \<Rightarrow> shm" where
  "mutex_lock s = s\<lparr>lock_held := True\<rparr>"

definition mutex_unlock :: "shm \<Rightarrow> shm" where
  "mutex_unlock s = s\<lparr>lock_held := False\<rparr>"

text \<open>\<open>shmmgr_alloc\<close> returns the address of the chunk's \<open>list\<close> field, or null (0).\<close>

definition shmmgr_alloc :: "layout \<Rightarrow> shm \<Rightarrow> 64 word \<Rightarrow> error + addr \<times> shm" where
  "shmmgr_alloc L s sz =
     (let mclass = fls64 (sz + hdr_off L - 1) in
      if mclass > SHMCLASS_MAX_BITS then Inr (0, s)
      else
        let mclass = (if mclass < SHMCLASS_MIN_BITS then SHMCLASS_MIN_BITS else mclass);
            s = mutex_lock s
        in
        rbind (free_list L s mclass) (\<lambda>fl.
        rbind (shmlist_empty s fl) (\<lambda>e.
        rbind (if e then shmmgr_split_chunk L s (mclass + 1) else Inr (True, s)) (\<lambda>(ok, s).
        if \<not> ok then Inr (0, mutex_unlock s)
        else
          rbind (shmlist_empty s fl) (\<lambda>e.
          rbind (assert (\<not> e)) (\<lambda>_.
          rbind (ld_next s fl) (\<lambda>n.
          rbind (offset_to_addr (shmhead s) n) (\<lambda>list.
          let chunk = container_of L list in
          rbind (ld_mclass s chunk) (\<lambda>m.
          rbind (assert (m = mclass)) (\<lambda>_.
          rbind (shmlist_del s (list_of L chunk)) (\<lambda>s.
          rbind (add_num_free s mclass (- 1)) (\<lambda>s.
          rbind (add_num_active s mclass 1) (\<lambda>s.
          Inr (list_of L chunk, mutex_unlock s))))))))))))))"

text \<open>
  The coalesce loop of \<open>shmmgr_free\<close> on its locals \<open>mclass\<close>, \<open>offset\<close> and
  \<open>chunk\<close>. The masks \<open>~(1 << mclass)\<close> and \<open>~((1 << mclass) - 1)\<close> are computed on
  \<open>int\<close> and sign-extended when they meet the offset.
\<close>

function free_loop ::
  "layout \<Rightarrow> shm \<Rightarrow> int \<Rightarrow> offset_t \<Rightarrow> addr \<Rightarrow> error + shm \<times> int \<times> addr" where
  "free_loop L s mclass offset chunk =
     (if mclass < SHMCLASS_MAX_BITS then
        rbind (shl1 mclass) (\<lambda>b.
        let offset_buddy =
              (if offset AND int_to_off b \<noteq> 0 then offset AND int_to_off (NOT b)
               else offset OR int_to_off b)
        in
        if offset_buddy < head_size L then Inr (s, mclass, chunk)
        else
          rbind (offset_to_addr (shmhead s) offset_buddy) (\<lambda>buddy.
          rbind (ld_active s buddy) (\<lambda>ba.
          rbind (if ba then Inr True
                 else rbind (ld_mclass s buddy) (\<lambda>bm. Inr (bm \<noteq> mclass))) (\<lambda>stop.
          if stop then Inr (s, mclass, chunk)
          else
            rbind (shmlist_del s (list_of L buddy)) (\<lambda>s.
            rbind (add_num_free s mclass (- 1)) (\<lambda>s.
            rbind (shl1 (mclass + 1)) (\<lambda>b.
            rbind (offset_to_addr (shmhead s) (offset AND int_to_off (NOT (b - 1)))) (\<lambda>chunk.
            rbind (st_mclass s chunk (mclass + 1)) (\<lambda>s.
            rbind (st_active s chunk False) (\<lambda>s.
            free_loop L s (mclass + 1) (offset AND int_to_off (NOT (b - 1))) chunk))))))))))
      else Inr (s, mclass, chunk))"
  by pat_completeness auto
termination
  by (relation "measure (\<lambda>(L, s, mclass, offset, chunk). nat (SHMCLASS_MAX_BITS - mclass))")
    (auto simp: SHMCLASS_MAX_BITS_def)

declare free_loop.simps [simp del]

definition shmmgr_free :: "layout \<Rightarrow> shm \<Rightarrow> addr \<Rightarrow> error + shm" where
  "shmmgr_free L s ptr =
     (let chunk = container_of L ptr in
      rbind (ld_mclass s chunk) (\<lambda>mclass.
      let s = mutex_lock s in
      rbind (st_active s chunk False) (\<lambda>s.
      rbind (add_num_active s mclass (- 1)) (\<lambda>s.
      rbind (addr_to_offset (shmhead s) chunk) (\<lambda>offset.
      rbind (free_loop L s mclass offset chunk) (\<lambda>(s, mclass, chunk).
      rbind (free_list L s mclass) (\<lambda>fl.
      rbind (shmlist_add s fl (list_of L chunk)) (\<lambda>s.
      rbind (add_num_free s mclass 1) (\<lambda>s.
      Inr (mutex_unlock s))))))))))"

subsection \<open>Cross-process locks and segment bootstrap\<close>

text \<open>
  What the operating system answers during one call of \<open>shmmgr_init\<close>: the results
  of \<open>shmget\<close> and \<open>shmat\<close> (\<open>(void *)(-1)\<close> on failure) and of the three
  \<open>pthread\<close> calls of \<open>shmmgr_init_mutex\<close> (0 on success).
\<close>

record os =
  shmget_ret :: int
  shmat_ret :: addr
  mutexattr_init_ret :: int
  mutexattr_setpshared_ret :: int
  mutex_init_ret :: int

definition shmmgr_init_mutex :: "os \<Rightarrow> bool" where
  "shmmgr_init_mutex e =
     (if mutexattr_init_ret e \<noteq> 0 then False
      else if mutexattr_setpshared_ret e \<noteq> 0 then False
      else if mutex_init_ret e \<noteq> 0 then False
      else True)"

text \<open>The body of the first loop of \<open>shmmgr_init\<close>, and the loop over \<open>0..31\<close>.\<close>

definition init_class :: "layout \<Rightarrow> shm \<Rightarrow> int \<Rightarrow> error + shm" where
  "init_class L s mclass =
     rbind (free_list L s mclass) (\<lambda>fl.
     rbind (shmlist_init s fl) (\<lambda>s.
     Inr (s\<lparr>num_free := (num_free s)(mclass := 0),
              num_active := (num_active s)(mclass := 0)\<rparr>)))"

primrec init_classes :: "layout \<Rightarrow> shm \<Rightarrow> int list \<Rightarrow> error + shm" where
  "init_classes L s [] = Inr s"
| "init_classes L s (m # ms) = rbind (init_class L s m) (\<lambda>s. init_classes L s ms)"

text \<open>The starting offset of the allocatable region.\<close>

definition init_offset :: "layout \<Rightarrow> error + offset_t" where
  "init_offset L =
     rbind (shl1 (fls64 (head_size L) + 1)) (\<lambda>sz.
     let offset = int_to_off sz in
     Inr (if offset < int_to_off SHMCLASS_MIN_SIZE then int_to_off SHMCLASS_MIN_SIZE else offset))"

text \<open>The inner loop of the seeding: \<open>while (segment_size < offset + (1 << mclass)) mclass--\<close>.\<close>

function seed_trunc :: "offset_t \<Rightarrow> offset_t \<Rightarrow> int \<Rightarrow> error + int" where
  "seed_trunc segsz offset mclass =
     rbind (shl1 mclass) (\<lambda>sz.
     if segsz < offset + int_to_off sz then seed_trunc segsz offset (mclass - 1)
     else Inr mclass)"
  by pat_completeness auto
termination
  by (relation "measure (\<lambda>(segsz, offset, mclass). nat (mclass + 1))")
    (auto simp: shl1_def split: if_splits)

declare seed_trunc.simps [simp del]

text \<open>One chunk of the seeding: the header is written, the chunk chained, the offset advanced.\<close>

definition seed_chunk :: "layout \<Rightarrow> shm \<Rightarrow> offset_t \<Rightarrow> int \<Rightarrow> error + shm \<times> offset_t" where
  "seed_chunk L s offset mclass =
     rbind (offset_to_addr (shmhead s) offset) (\<lambda>chunk.
     rbind (st_mclass s chunk mclass) (\<lambda>s.
     rbind (st_active s chunk False) (\<lambda>s.
     rbind (free_list L s mclass) (\<lambda>fl.
     rbind (shmlist_add s fl (list_of L chunk)) (\<lambda>s.
     rbind (add_num_free s mclass 1) (\<lambda>s.
     rbind (shl1 mclass) (\<lambda>sz.
     Inr (s, offset + int_to_off sz))))))))"

text \<open>
  The seeding loop, on the memory and its local \<open>offset\<close>; the result is the memory and
  the value of \<open>offset\<close> when the loop is left. \<open>None\<close> is a loop that never ends.
\<close>

partial_function (option) seed_loop ::
  "layout \<Rightarrow> shm \<Rightarrow> offset_t \<Rightarrow> (error + shm \<times> offset_t) option" where
  "seed_loop L s offset =
     (if segment_size s - offset \<ge> int_to_off SHMCLASS_MIN_SIZE then
        let mclass = ffs64 offset - 1;
            mclass = (if mclass > SHMCLASS_MAX_BITS then SHMCLASS_MAX_BITS else mclass)
        in
        if \<not> mclass \<ge> SHMCLASS_MIN_BITS then Some (Inl AssertFail)
        else
          case seed_trunc (segment_size s) offset mclass of
            Inl e \<Rightarrow> Some (Inl e)
          | Inr mclass \<Rightarrow>
              if mclass < SHMCLASS_MIN_BITS then Some (Inr (s, offset))
              else
                (case seed_chunk L s offset mclass of
                   Inl e \<Rightarrow> Some (Inl e)
                 | Inr (s, offset) \<Rightarrow> seed_loop L s offset)
      else Some (Inr (s, offset)))"

declare seed_loop.simps [code]

text \<open>
  \<open>shmmgr_init\<close> on the memory \<open>s\<close> found at the call; the result is the returned
  \<open>int\<close> and the memory left. The result of \<open>shmmgr_init_mutex\<close> is dropped, as in
  the source; \<open>shmbuf_init\<close> belongs to another module and is left out.
\<close>

definition shmmgr_init ::
  "layout \<Rightarrow> os \<Rightarrow> shm \<Rightarrow> 64 word \<Rightarrow> bool \<Rightarrow> (error + int \<times> shm) option" where
  "shmmgr_init L e s sz hugetlb =
     (let shmid0 = shmget_ret e in
      if shmid0 < 0 then Some (Inr (- 1, s))
      else
        let s = s\<lparr>shmhead := shmat_ret e\<rparr> in
        if shmhead s = - 1 then Some (Inr (- 1, s))
        else
          let s = s\<lparr>shmid := shmid0, segment_size := sz\<rparr> in
          case init_classes L s [0..SHMCLASS_MAX_BITS] of
            Inl err \<Rightarrow> Some (Inl err)
          | Inr s \<Rightarrow>
              (case init_offset L of
                 Inl err \<Rightarrow> Some (Inl err)
               | Inr offset \<Rightarrow>
                   (case seed_loop L s offset of
                      None \<Rightarrow> None
                    | Some (Inl err) \<Rightarrow> Some (Inl err)
                    | Some (Inr (s, offset)) \<Rightarrow>
                        let locked = shmmgr_init_mutex e in
                        Some (Inr (0, s\<lparr>lock_held := (if locked then False else lock_held s)\<rparr>)))))"

section \<open>Properties\<close>

lemma rbind_Inr [simp]: "rbind (Inr x) f = f x"
  by (simp add: rbind_def)

lemma rbind_Inl [simp]: "rbind (Inl e) f = Inl e"
  by (simp add: rbind_def)

subsection \<open>Offset arithmetic\<close>

text \<open>
  C6, as stated, fails at the segment base: the base is a non-null address inside the
  segment, its offset is 0, and offset 0 translates to the null address.
\<close>

theorem roundtrip_base_counterexample:
  "rbind (addr_to_offset 0x10000 0x10000) (offset_to_addr 0x10000) = Inr 0
   \<and> rbind (addr_to_offset 0x10000 0x10000) (offset_to_addr 0x10000) \<noteq> Inr 0x10000"
  by (simp add: addr_to_offset_def offset_to_addr_def)

text \<open>
  C6, amended: with the segment base set, every non-null address other than the segment
  base itself is translated to its offset and back to itself; the null address
  translates to offset 0 and offset 0 to the null address.
\<close>

theorem roundtrip_translation:
  assumes "base \<noteq> 0" and "a \<noteq> 0" and "a \<noteq> base"
  shows "rbind (addr_to_offset base a) (offset_to_addr base) = Inr a
         \<and> addr_to_offset base 0 = Inr 0 \<and> offset_to_addr base 0 = Inr 0"
  using assms by (simp add: addr_to_offset_def offset_to_addr_def)

theorem roundtrip_translation_witness:
  "(0x10000 :: addr) \<noteq> 0 \<and> (0x10840 :: addr) \<noteq> 0 \<and> (0x10840 :: addr) \<noteq> 0x10000
   \<and> rbind (addr_to_offset 0x10000 0x10840) (offset_to_addr 0x10000) = Inr 0x10840
   \<and> addr_to_offset 0x10000 0 = Inr 0 \<and> offset_to_addr 0x10000 0 = Inr 0"
  using roundtrip_translation [of "0x10000" "0x10840"] by simp

subsection \<open>A concrete segment\<close>

text \<open>
  A fresh, zero-filled memory, and the memory that \<open>shmmgr_init\<close> leaves for a segment
  of 2176 bytes mapped at address \<open>0x10000\<close> under the LP64 layout: the 32 empty
  sentinels at offsets \<open>16 + 16 * m\<close> (\<open>sentinels\<close>), and one free chunk of class 7 at offset 2048
  (its link node at offset 2056) on \<open>free_list[7]\<close>.
\<close>

definition mem0 :: shm where
  "mem0 = \<lparr> shmhead = 0, shmid = 0, segment_size = 0, l_next = (\<lambda>_. 0), l_prev = (\<lambda>_. 0),
     c_mclass = (\<lambda>_. 0), c_active = (\<lambda>_. False), num_active = (\<lambda>_. 0),
     num_free = (\<lambda>_. 0), lock_held = False \<rparr>"

definition sentinels :: "addr \<Rightarrow> offset_t" where
  "sentinels = (\<lambda>_. 0)
     (65552 := 16, 65568 := 32, 65584 := 48, 65600 := 64, 65616 := 80, 65632 := 96,
      65648 := 112, 65664 := 128, 65680 := 144, 65696 := 160, 65712 := 176, 65728 :=
      192, 65744 := 208, 65760 := 224, 65776 := 240, 65792 := 256, 65808 := 272, 65824
      := 288, 65840 := 304, 65856 := 320, 65872 := 336, 65888 := 352, 65904 := 368,
      65920 := 384, 65936 := 400, 65952 := 416, 65968 := 432, 65984 := 448, 66000 :=
      464, 66016 := 480, 66032 := 496, 66048 := 512)"

definition seeded :: shm where
  "seeded = \<lparr> shmhead = 65536, shmid = 5, segment_size = 2176,
     l_next = sentinels(65664 := 2056, 67592 := 128),
     l_prev = sentinels(67592 := 128, 65664 := 2056),
     c_mclass = (\<lambda>_. 0)(67584 := 7),
     c_active = (\<lambda>_. False),
     num_active = (\<lambda>_. 0),
     num_free = (\<lambda>_. 0)(7 := 1),
     lock_held = False \<rparr>"

definition os_lock_fail :: os where
  "os_lock_fail = \<lparr> shmget_ret = 5, shmat_ret = 0x10000, mutexattr_init_ret = 0,
     mutexattr_setpshared_ret = 0, mutex_init_ret = 1 \<rparr>"

lemmas store_defs = shmlist_init_def shmlist_add_def shmlist_del_def shmlist_empty_def
  addr_to_offset_def offset_to_addr_def ld_next_def ld_prev_def st_next_def st_prev_def
  ld_mclass_def ld_active_def st_mclass_def st_active_def free_list_def add_num_free_def
  add_num_active_def container_of_def list_of_def SHMCLASS_MAX_BITS_def SHMCLASS_MIN_BITS_def
  assert_def

lemma upto_0_31:
  "[0..31] = [0, 1, 2, 3, 4, 5, 6, 7, 8, 9, 10, 11, 12, 13, 14, 15, 16, 17, 18, 19, 20, 21,
     22, 23, 24, 25, 26, 27, 28, 29, 30, 31]"
  by (simp add: upto.simps)

lemma fls64_824: "fls64 824 = 10"
  by (simp add: fls64_def fls_step_def Let_def)

lemma ffs64_2048: "ffs64 2048 = 12"
  by (simp add: ffs64_def ffs_step_def Let_def)

lemma init_offset_lp64: "init_offset lp64 = Inr 2048"
  by (simp add: init_offset_def lp64_def fls64_824 shl1_def int_to_off_def SHMCLASS_MIN_SIZE_def)

lemma init_seeded:
  assumes "shmget_ret e = 5" and "shmat_ret e = 0x10000"
  shows "shmmgr_init lp64 e mem0 2176 False = Some (Inr (0, seeded))"
  unfolding shmmgr_init_def upto_0_31 SHMCLASS_MAX_BITS_def
  apply (simp add: assms mem0_def Let_def init_offset_lp64 init_class_def store_defs)
  apply (simp add: lp64_def)
  apply (subst seed_loop.simps)
  apply (simp add: ffs64_2048 int_to_off_def SHMCLASS_MIN_SIZE_def shl1_def Let_def store_defs
      seed_chunk_def lp64_def seed_trunc.simps)
  apply (subst seed_loop.simps)
  apply (simp add: int_to_off_def SHMCLASS_MIN_SIZE_def seeded_def sentinels_def)
  apply (intro conjI ext)
    apply simp_all
  done

subsection \<open>Bootstrap\<close>

text \<open>
  C8 fails on the code: \<open>shmmgr_init\<close> drops the result of \<open>shmmgr_init_mutex\<close>.
  Here \<open>pthread_mutex_init\<close> fails, \<open>shmmgr_init_mutex\<close> reports the failure, and
  \<open>shmmgr_init\<close> still returns 0.
\<close>

theorem init_returns_0_when_lock_init_fails:
  "\<not> shmmgr_init_mutex os_lock_fail \<and>
   map_option (map_sum id fst) (shmmgr_init lp64 os_lock_fail mem0 2176 False) = Some (Inr 0)"
proof -
  have "shmmgr_init lp64 os_lock_fail mem0 2176 False = Some (Inr (0, seeded))"
    by (rule init_seeded) (simp_all add: os_lock_fail_def)
  then show ?thesis by (simp add: shmmgr_init_mutex_def os_lock_fail_def)
qed

subsection \<open>Allocation at the largest class\<close>

lemma split_chunk_32: "shmmgr_split_chunk L s 32 = Inl AssertFail"
  by (subst shmmgr_split_chunk.simps)
    (simp add: assert_def SHMCLASS_MAX_BITS_def SHMCLASS_MIN_BITS_def)

lemma fls64_2p30_hdr: "fls64 1073741831 = 31"
  by (simp add: fls64_def fls_step_def Let_def)

lemma seeded_shmhead: "shmhead seeded = 65536"
  by (simp add: seeded_def)

lemma sentinels_simps [simp]:
  "sentinels 65648 = 112" "sentinels 65664 = 128" "sentinels 66048 = 512"
  "sentinels 67592 = 0" "sentinels 67656 = 0"
  by (simp_all add: sentinels_def)

lemma hdr_off_lp64: "hdr_off lp64 = 8"
  by (simp add: lp64_def)

text \<open>
  C5 fails on the code: \<open>shmmgr_split_chunk\<close> does not fail cleanly above
  \<open>SHMCLASS_MAX_BITS\<close>. Its first statement asserts \<open>mclass <= SHMCLASS_MAX_BITS\<close>, so
  the call \<open>shmmgr_split_chunk(32)\<close>, which \<open>shmmgr_alloc\<close> makes for class 31 when
  \<open>free_list[31]\<close> is empty, stops at the assertion in every state.
\<close>

theorem split_above_max_bits_fails_assertion:
  "shmmgr_split_chunk L s (SHMCLASS_MAX_BITS + 1) = Inl AssertFail"
  by (subst shmmgr_split_chunk.simps)
    (simp add: assert_def SHMCLASS_MAX_BITS_def SHMCLASS_MIN_BITS_def)

text \<open>
  C4 fails on the code at the same place: a request of \<open>2^30\<close> bytes has class 31; in
  the seeded segment of 2176 bytes there is no chunk of class 31 and nothing larger to
  split, and the call does not return null but stops at the assertion of
  \<open>shmmgr_split_chunk\<close> (with the segment lock still held).
\<close>

theorem alloc_class_31_exhausted_fails_assertion:
  "shmmgr_alloc lp64 seeded (2 ^ 30) = Inl AssertFail"
proof -
  have a: "free_list lp64 (mutex_lock seeded) 31 = Inr 66048"
    by (simp add: free_list_def lp64_def mutex_lock_def seeded_shmhead SHMCLASS_MAX_BITS_def)
  have n: "l_next seeded 66048 = 512"
    by (simp add: seeded_def)
  have b: "shmlist_empty (mutex_lock seeded) 66048 = Inr True"
    by (simp add: shmlist_empty_def ld_next_def mutex_lock_def n seeded_shmhead
        offset_to_addr_def)
  show ?thesis
    unfolding shmmgr_alloc_def
    by (simp add: hdr_off_lp64 fls64_2p30_hdr Let_def SHMCLASS_MAX_BITS_def
        SHMCLASS_MIN_BITS_def a b split_chunk_32)
qed

subsection \<open>The bit scan \<open>fls64\<close>\<close>

text \<open>
  \<open>fls64\<close> returns the 1-based index of the highest set bit: for \<open>x \<noteq> 0\<close>,
  \<open>2 ^ (fls64 x - 1) \<le> x < 2 ^ fls64 x\<close>. The invariant of the six tests: the value
  left is the input shifted right by \<open>ret - 1\<close>, it is not zero, and it fits in \<open>j\<close>
  bits.
\<close>

lemma and_band_zero_iff:
  fixes v :: "64 word"
  assumes "drop_bit (2 * k) v = 0"
  shows "(v AND push_bit k (mask k) = 0) = (drop_bit k v = 0)"
proof -
  have hi: "\<not> bit v n" if "2 * k \<le> n" for n
  proof -
    have "bit (drop_bit (2 * k) v) (n - 2 * k) = bit v n"
      using that by (simp add: bit_drop_bit_eq)
    then show ?thesis using assms by simp
  qed
  have a: "(v AND push_bit k (mask k) = 0) = (\<forall>n. k \<le> n \<and> n < 2 * k \<longrightarrow> \<not> bit v n)"
    apply (simp add: bit_eq_iff bit_and_iff bit_push_bit_iff bit_mask_iff)
    apply (rule iffI)
     apply clarsimp
    subgoal for n
      apply (drule spec [of _ n])
      using bit_imp_le_length [of v n] apply auto
      done
    apply auto
    done
  have b: "(drop_bit k v = 0) = (\<forall>n. k \<le> n \<longrightarrow> \<not> bit v n)"
    apply (simp add: bit_eq_iff bit_drop_bit_eq)
    apply (rule iffI)
     apply clarsimp
    subgoal for n
      apply (drule spec [of _ "n - k"])
      using bit_imp_le_length [of v n] apply auto
      done
    apply auto
    done
  show ?thesis unfolding a b using hi
    by (metis not_le_imp_less)
qed

lemma drop_bit_zero_iff_less:
  fixes v :: "64 word"
  shows "(drop_bit k v = 0) = (unat v < 2 ^ k)"
proof -
  have "(drop_bit k v = 0) = (unat (drop_bit k v) = 0)" by (simp add: unat_eq_0)
  also have "\<dots> = (unat v div 2 ^ k = 0)" unfolding unat_drop_bit_eq by (simp add: drop_bit_eq_div)
  also have "\<dots> = (unat v < 2 ^ k)" by (simp add: div_eq_0_iff)
  finally show ?thesis .
qed

definition fls_inv :: "64 word \<Rightarrow> nat \<Rightarrow> 64 word \<times> int \<Rightarrow> bool" where
  "fls_inv x j p = (1 \<le> snd p \<and> fst p = drop_bit (nat (snd p - 1)) x \<and> fst p \<noteq> 0 \<and> drop_bit j (fst p) = 0)"

lemma fls_step_inv:
  assumes "fls_inv x (2 * k) p" and "M = push_bit k (mask k)"
  shows "fls_inv x k (fls_step M k p)"
proof -
  obtain v r where p: "p = (v, r)" by (cases p)
  from assms(1) have inv: "1 \<le> r \<and> v = drop_bit (nat (r - 1)) x \<and> v \<noteq> 0
      \<and> drop_bit (2 * k) v = 0"
    unfolding fls_inv_def p fst_conv snd_conv .
  from inv have r: "1 \<le> r" by blast
  from inv have v: "v = drop_bit (nat (r - 1)) x" by blast
  from inv have nz: "v \<noteq> 0" by blast
  from inv have hi: "drop_bit (2 * k) v = 0" by blast
  have test: "(v AND M = 0) = (drop_bit k v = 0)"
    using hi assms(2) by (simp add: and_band_zero_iff)
  show ?thesis
  proof (cases "drop_bit k v = 0")
    case True
    then show ?thesis using test r v nz by (simp add: fls_step_def fls_inv_def p)
  next
    case False
    have "nat (r + int k - 1) = k + nat (r - 1)" using r by simp
    then have a: "drop_bit k v = drop_bit (nat (r + int k - 1)) x"
      using v by (simp add: drop_bit_drop_bit)
    have b: "drop_bit k (drop_bit k v) = 0"
      using hi by (simp add: drop_bit_drop_bit mult_2)
    have c: "1 \<le> r + int k" using r by simp
    show ?thesis using test False a b c by (simp add: fls_step_def fls_inv_def p)
  qed
qed

lemma fls64_steps:
  "fls64 x = (if x = 0 then 0 else
     snd (fls_step 0x2 1 (fls_step 0xc 2 (fls_step 0xf0 4 (fls_step 0xff00 8
       (fls_step 0xffff0000 16 (fls_step 0xffffffff00000000 32 (x, 1))))))))"
  unfolding fls64_def Let_def ..

lemma fls64_inv:
  assumes "x \<noteq> 0"
  shows "fls_inv x 1 (fls_step 0x2 1 (fls_step 0xc 2 (fls_step 0xf0 4 (fls_step 0xff00 8
       (fls_step 0xffff0000 16 (fls_step 0xffffffff00000000 32 (x, 1)))))))"
proof -
  have i0: "fls_inv x (2 * 32) (x, 1)" using assms by (simp add: fls_inv_def)
  have i1: "fls_inv x (2 * 16) (fls_step 0xffffffff00000000 32 (x, 1))"
    using fls_step_inv [OF i0, of "0xffffffff00000000"] by (simp add: mask_eq_exp_minus_1)
  have i2: "fls_inv x (2 * 8) (fls_step 0xffff0000 16 (fls_step 0xffffffff00000000 32 (x, 1)))"
    using fls_step_inv [OF i1, of "0xffff0000"] by (simp add: mask_eq_exp_minus_1)
  have i3: "fls_inv x (2 * 4) (fls_step 0xff00 8 (fls_step 0xffff0000 16
      (fls_step 0xffffffff00000000 32 (x, 1))))"
    using fls_step_inv [OF i2, of "0xff00"] by (simp add: mask_eq_exp_minus_1)
  have i4: "fls_inv x (2 * 2) (fls_step 0xf0 4 (fls_step 0xff00 8 (fls_step 0xffff0000 16
      (fls_step 0xffffffff00000000 32 (x, 1)))))"
    using fls_step_inv [OF i3, of "0xf0"] by (simp add: mask_eq_exp_minus_1)
  have i5: "fls_inv x (2 * 1) (fls_step 0xc 2 (fls_step 0xf0 4 (fls_step 0xff00 8
      (fls_step 0xffff0000 16 (fls_step 0xffffffff00000000 32 (x, 1))))))"
    using fls_step_inv [OF i4, of "0xc"] by (simp add: mask_eq_exp_minus_1)
  show ?thesis
    using fls_step_inv [OF i5, of "0x2"] by (simp add: mask_eq_exp_minus_1)
qed

lemma fls64_bounds:
  assumes "x \<noteq> 0"
  shows "1 \<le> fls64 x \<and> fls64 x \<le> 64 \<and>
         2 ^ nat (fls64 x - 1) \<le> unat x \<and> unat x < 2 ^ nat (fls64 x)"
proof -
  obtain v r where vr: "fls_step 0x2 1 (fls_step 0xc 2 (fls_step 0xf0 4 (fls_step 0xff00 8
       (fls_step 0xffff0000 16 (fls_step 0xffffffff00000000 32 (x, 1)))))) = (v, r)"
    by (cases "fls_step 0x2 1 (fls_step 0xc 2 (fls_step 0xf0 4 (fls_step 0xff00 8
       (fls_step 0xffff0000 16 (fls_step 0xffffffff00000000 32 (x, 1))))))")
  have fr: "fls64 x = r" using assms vr by (simp add: fls64_steps)
  from fls64_inv [OF assms] have inv: "1 \<le> r \<and> v = drop_bit (nat (r - 1)) x \<and> v \<noteq> 0
      \<and> drop_bit 1 v = 0"
    unfolding vr fls_inv_def fst_conv snd_conv .
  from inv have r: "1 \<le> r" by blast
  from inv have v: "v = drop_bit (nat (r - 1)) x" by blast
  from inv have nz: "v \<noteq> 0" by blast
  from inv have hi: "drop_bit 1 v = 0" by blast
  have "unat v < 2" using hi by (simp add: drop_bit_zero_iff_less)
  moreover have "unat v \<noteq> 0" using nz by (simp add: unat_eq_0)
  ultimately have "unat v = 1" by simp
  moreover have "unat v = drop_bit (nat (r - 1)) (unat x)"
    by (simp only: v unat_drop_bit_eq)
  ultimately have d: "unat x div 2 ^ nat (r - 1) = 1"
    by (simp only: drop_bit_nat_def)
  have lo: "2 ^ nat (r - 1) \<le> unat x"
  proof (rule ccontr)
    assume "\<not> 2 ^ nat (r - 1) \<le> unat x"
    then have "unat x div 2 ^ nat (r - 1) = 0" by simp
    with d show False by simp
  qed
  have "unat x < 2 * 2 ^ nat (r - 1)"
  proof (rule ccontr)
    assume "\<not> unat x < 2 * 2 ^ nat (r - 1)"
    then have "2 * 2 ^ nat (r - 1) \<le> unat x" by simp
    then have "2 \<le> unat x div 2 ^ nat (r - 1)"
      by (simp add: less_eq_div_iff_mult_less_eq)
    with d show False by simp
  qed
  moreover have "nat r = Suc (nat (r - 1))" using r by simp
  then have "(2::nat) * 2 ^ nat (r - 1) = 2 ^ nat r" by simp
  ultimately have up: "unat x < 2 ^ nat r" by simp
  have "unat x < 2 ^ LENGTH(64)" by (rule unsigned_less)
  with lo have "(2::nat) ^ nat (r - 1) < 2 ^ LENGTH(64)" by (rule order_le_less_trans)
  then have "nat (r - 1) < LENGTH(64)" by (rule power_less_imp_less_exp [rotated]) simp
  then have "r \<le> 64" by simp
  with r lo up fr show ?thesis by simp
qed
subsection \<open>Chunk sizes as \<open>int\<close> shifts\<close>

lemma int_to_off_shl:
  assumes "n \<le> 30"
  shows "int_to_off (push_bit n 1) = 2 ^ n"
proof -
  have "(scast (push_bit n 1 :: 32 word) :: 64 word) = push_bit n 1"
    apply (rule bit_word_eqI)
    using assms apply (auto simp: bit_simps)
    done
  then show ?thesis by (simp add: int_to_off_def)
qed

lemma int_to_off_not_shl:
  assumes "n \<le> 30"
  shows "int_to_off (NOT (push_bit n 1)) = NOT (2 ^ n)"
proof -
  have "(scast (NOT (push_bit n 1 :: 32 word)) :: 64 word) = NOT (push_bit n 1)"
    apply (rule bit_word_eqI)
    using assms apply (auto simp: bit_simps)
    done
  then show ?thesis by (simp add: int_to_off_def)
qed

lemma int_to_off_mask:
  assumes "n \<le> 31"
  shows "int_to_off (NOT (push_bit n 1 - 1)) = NOT (2 ^ n - 1)"
proof -
  have "(scast (NOT (mask n :: 32 word)) :: 64 word) = NOT (mask n)"
    apply (rule bit_word_eqI)
    using assms apply (auto simp: bit_simps)
    done
  then show ?thesis by (simp add: int_to_off_def mask_eq_exp_minus_1)
qed
subsection \<open>The starting offset of the allocatable region\<close>

text \<open>
  C7, as stated, fails: for the LP64 header of 824 bytes the starting offset is 2048,
  although 1024 is a power of two strictly larger than the header.
\<close>

theorem init_offset_counterexample:
  "init_offset lp64 = Inr 2048 \<and> head_size lp64 < 2 ^ 10 \<and> (2 ^ 10 :: offset_t) < 2048"
  by (simp add: init_offset_lp64) (simp add: lp64_def)

text \<open>
  C7, amended: for a header of \<open>h\<close> bytes, \<open>0 < h < 2^29\<close>, the starting offset of the
  allocatable region is twice the smallest power of two strictly larger than \<open>h\<close>
  (that is \<open>2 * 2^k\<close> with \<open>2^k / 2 \<le> h < 2^k\<close>), but at least
  \<open>SHMCLASS_MIN_SIZE\<close> (64 bytes).
\<close>

theorem init_offset_value:
  assumes "head_size L \<noteq> 0" and "unat (head_size L) < 2 ^ 29"
  shows "\<exists>k. init_offset L = Inr (max 64 (2 * 2 ^ k))
           \<and> unat (head_size L) < 2 ^ k \<and> 2 ^ k \<le> 2 * unat (head_size L)"
proof -
  define r where "r = fls64 (head_size L)"
  from fls64_bounds [OF assms(1)]
  have r1: "1 \<le> r" and lo: "2 ^ nat (r - 1) \<le> unat (head_size L)"
    and up: "unat (head_size L) < 2 ^ nat r"
    by (simp_all add: r_def)
  from lo assms(2) have "(2::nat) ^ nat (r - 1) < 2 ^ 29" by (rule order_le_less_trans)
  then have "nat (r - 1) < 29" by (rule power_less_imp_less_exp [rotated]) simp
  then have r29: "r \<le> 29" by simp
  have nr: "nat r = Suc (nat (r - 1))" using r1 by linarith
  have sh: "shl1 (r + 1) = Inr (push_bit (Suc (nat r)) 1)"
    using r1 r29 by (simp add: shl1_def nat_add_distrib)
  have "int_to_off (push_bit (Suc (nat r)) 1) = 2 ^ Suc (nat r)"
    using r29 by (intro int_to_off_shl) simp
  then have ito: "int_to_off (2 * 2 ^ nat r) = 2 * 2 ^ nat r"
    by (simp add: push_bit_eq_mult)
  have m: "int_to_off SHMCLASS_MIN_SIZE = 64"
    by (simp add: SHMCLASS_MIN_SIZE_def int_to_off_def)
  have "init_offset L = Inr (max 64 (2 * 2 ^ nat r))"
    unfolding init_offset_def r_def [symmetric]
    by (auto simp add: sh ito m Let_def max_def push_bit_eq_mult)
  moreover have "2 ^ nat r \<le> 2 * unat (head_size L)"
    using lo by (simp add: nr)
  ultimately show ?thesis using up by blast
qed

theorem init_offset_value_witness:
  "head_size lp64 \<noteq> 0 \<and> unat (head_size lp64) < 2 ^ 29
   \<and> (\<exists>k. init_offset lp64 = Inr (max 64 (2 * 2 ^ k))
           \<and> unat (head_size lp64) < 2 ^ k \<and> 2 ^ k \<le> 2 * unat (head_size lp64))"
proof -
  have a: "head_size lp64 \<noteq> 0" by (simp add: lp64_def)
  have b: "unat (head_size lp64) < 2 ^ 29" by (simp add: lp64_def)
  from init_offset_value [OF a b] a b show ?thesis by blast
qed
subsection \<open>The class of 2 GiB\<close>

definition at_2g :: shm where
  "at_2g = seeded\<lparr>segment_size := 2 ^ 31 + 64\<rparr>"

lemma ffs64_2p31: "ffs64 2147483648 = 32"
  by (simp add: ffs64_def ffs_step_def Let_def)

lemma ffs64_0: "ffs64 0 = 0"
  by (simp add: ffs64_def)

lemma seed_loop_at_2g: "seed_loop lp64 at_2g (2 ^ 31) = Some (Inl AssertFail)"
  apply (subst seed_loop.simps)
  apply (simp add: ffs64_2p31 Let_def SHMCLASS_MAX_BITS_def SHMCLASS_MIN_BITS_def at_2g_def
      int_to_off_def SHMCLASS_MIN_SIZE_def)
  apply (subst seed_trunc.simps)
  apply (simp add: shl1_def int_to_off_def)
  apply (simp add: seed_chunk_def at_2g_def seeded_def store_defs lp64_def shl1_def
      int_to_off_def)
  apply (subst seed_loop.simps)
  apply (simp add: ffs64_0 Let_def SHMCLASS_MAX_BITS_def SHMCLASS_MIN_BITS_def int_to_off_def
      SHMCLASS_MIN_SIZE_def)
  done

text \<open>
  C9 fails on the code at class 31: \<open>1 << 31\<close> is an \<open>int\<close>, namely \<open>INT_MIN\<close>, and
  as an offset it is \<open>2^64 - 2^31\<close>, not \<open>2^31\<close>. In a segment of \<open>2^31 + 64\<close>
  bytes (\<open>at_2g\<close>: the memory of such a segment when the seeding loop is at offset
  \<open>2^31\<close>) the truncation loop keeps class 31 although 64 bytes remain, the advance
  \<open>offset += 1 << 31\<close> takes the offset back to 0, and the next round stops at
  \<open>assert(mclass >= SHMCLASS_MIN_BITS)\<close>.
\<close>

theorem class_31_size_is_not_2g:
  "shl1 SHMCLASS_MAX_BITS = Inr SHMCLASS_MAX_SIZE
   \<and> sint SHMCLASS_MAX_SIZE = - (2 ^ 31)
   \<and> int_to_off SHMCLASS_MAX_SIZE = 0xFFFFFFFF80000000
   \<and> seed_trunc (2 ^ 31 + 64) (2 ^ 31) SHMCLASS_MAX_BITS = Inr 31
   \<and> (2 ^ 31 :: offset_t) + int_to_off SHMCLASS_MAX_SIZE = 0
   \<and> seed_loop lp64 at_2g (2 ^ 31) = Some (Inl AssertFail)"
  apply (intro conjI)
       apply (simp add: shl1_def SHMCLASS_MAX_BITS_def SHMCLASS_MAX_SIZE_def)
      apply (simp add: SHMCLASS_MAX_SIZE_def)
     apply (simp add: SHMCLASS_MAX_SIZE_def int_to_off_def)
    apply (subst seed_trunc.simps)
    apply (simp add: shl1_def SHMCLASS_MAX_BITS_def int_to_off_def)
   apply (simp add: SHMCLASS_MAX_SIZE_def int_to_off_def)
  apply (rule seed_loop_at_2g)
  done

end
